theory Spec2Isabelle
  imports Complex_Main
begin

section \<open>JSONQuery: the value model\<close>

text \<open>
  The program works on the objects that \<^verbatim>\<open>json.loads\<close> and the YAML parser build:
  \<^verbatim>\<open>None\<close>, \<^verbatim>\<open>bool\<close>, \<^verbatim>\<open>int\<close>, \<^verbatim>\<open>float\<close>, \<^verbatim>\<open>str\<close>, \<^verbatim>\<open>list\<close> and \<^verbatim>\<open>dict\<close> with string keys.
  A dict is an association list in insertion order. A float is the exact rational it
  denotes: rounding to binary64, infinities and NaN are outside this model. Strings are
  \<^typ>\<open>string\<close>; the character classes below are Python's on ASCII.
\<close>

datatype pyval =
    PNone
  | PBool bool
  | PInt int
  | PFloat rat
  | PStr string
  | PList "pyval list"
  | PDict "(string \<times> pyval) list"

text \<open>A path component is a \<^verbatim>\<open>str\<close> or an \<^verbatim>\<open>int\<close> (\<^verbatim>\<open>List[Union[str, int]]\<close>).\<close>

datatype component = Key string | Idx int

datatype error = ReError | ValueError | IndexError

subsection \<open>Python's string primitives\<close>

definition isspace :: "char \<Rightarrow> bool" where
  "isspace c = (let n = (of_char c :: nat) in (9 \<le> n \<and> n \<le> 13) \<or> (28 \<le> n \<and> n \<le> 32))"

definition lstrip :: "string \<Rightarrow> string" where
  "lstrip s = dropWhile isspace s"

definition rstrip :: "string \<Rightarrow> string" where
  "rstrip s = rev (dropWhile isspace (rev s))"

definition strip :: "string \<Rightarrow> string" where
  "strip s = rstrip (lstrip s)"

definition lower_char :: "char \<Rightarrow> char" where
  "lower_char c = (let n = (of_char c :: nat) in if 65 \<le> n \<and> n \<le> 90 then char_of (n + 32) else c)"

definition lower :: "string \<Rightarrow> string" where
  "lower s = map lower_char s"

definition startswith :: "string \<Rightarrow> string \<Rightarrow> bool" where
  "startswith s p = (take (length p) s = p)"

definition endswith :: "string \<Rightarrow> string \<Rightarrow> bool" where
  "endswith s p = (length p \<le> length s \<and> drop (length s - length p) s = p)"

text \<open>\<^verbatim>\<open>sep in s\<close> for a non-empty \<^verbatim>\<open>sep\<close>.\<close>

fun contains :: "string \<Rightarrow> string \<Rightarrow> bool" where
  "contains sep [] = (sep = [])"
| "contains sep (c # cs) = (startswith (c # cs) sep \<or> contains sep cs)"

text \<open>\<^verbatim>\<open>s.split(sep, 1)\<close>: the two parts around the first occurrence, \<open>None\<close> when the
  result has one part only.\<close>

fun split_once :: "string \<Rightarrow> string \<Rightarrow> (string \<times> string) option" where
  "split_once sep [] = (if sep = [] then Some ([], []) else None)"
| "split_once sep (c # cs) =
     (if startswith (c # cs) sep then Some ([], drop (length sep) (c # cs))
      else map_option (\<lambda>(a, b). (c # a, b)) (split_once sep cs))"

text \<open>\<^verbatim>\<open>s[1:-1]\<close>.\<close>

definition unquote :: "string \<Rightarrow> string" where
  "unquote s = butlast (tl s)"

subsection \<open>Python's \<^verbatim>\<open>int()\<close> and \<^verbatim>\<open>float()\<close> on strings\<close>

definition isdigit :: "char \<Rightarrow> bool" where
  "isdigit c = (let n = (of_char c :: nat) in 48 \<le> n \<and> n \<le> 57)"

definition digit_val :: "char \<Rightarrow> nat" where
  "digit_val c = of_char c - 48"

text \<open>A digit part: digits, with single underscores allowed between two digits.
  The result is the list of digit values.\<close>

fun digits_rest :: "string \<Rightarrow> nat list option" where
  "digits_rest [] = Some []"
| "digits_rest (c # cs) =
     (if isdigit c then map_option ((#) (digit_val c)) (digits_rest cs)
      else if c = CHR ''_'' then
        (case cs of
           [] \<Rightarrow> None
         | d # ds \<Rightarrow> if isdigit d then map_option ((#) (digit_val d)) (digits_rest ds) else None)
      else None)"

definition digitpart :: "string \<Rightarrow> nat list option" where
  "digitpart s =
     (case s of
        [] \<Rightarrow> None
      | c # cs \<Rightarrow> if isdigit c then map_option ((#) (digit_val c)) (digits_rest cs) else None)"

definition decimal :: "nat list \<Rightarrow> nat" where
  "decimal ds = foldl (\<lambda>acc d. 10 * acc + d) 0 ds"

text \<open>An optional sign; the result is \<open>True\<close> for a minus sign.\<close>

definition split_sign :: "string \<Rightarrow> bool \<times> string" where
  "split_sign s =
     (case s of
        [] \<Rightarrow> (False, [])
      | c # cs \<Rightarrow> if c = CHR ''-'' then (True, cs) else if c = CHR ''+'' then (False, cs) else (False, s))"

text \<open>\<^verbatim>\<open>int(s)\<close> in base 10; \<open>None\<close> is the \<^verbatim>\<open>ValueError\<close>.\<close>

definition py_int :: "string \<Rightarrow> int option" where
  "py_int s =
     (let (neg, body) = split_sign (strip s) in
      case digitpart body of
        None \<Rightarrow> None
      | Some ds \<Rightarrow> Some (if neg then - int (decimal ds) else int (decimal ds)))"

text \<open>The exponent of a float literal: an optional sign and a digit part.\<close>

definition exponent :: "string \<Rightarrow> int option" where
  "exponent s =
     (let (neg, body) = split_sign s in
      case digitpart body of
        None \<Rightarrow> None
      | Some ds \<Rightarrow> Some (if neg then - int (decimal ds) else int (decimal ds)))"

text \<open>The mantissa: a digit part, or digit parts around one point, one of the two
  possibly empty. The result is the pair of digit lists.\<close>

definition mantissa :: "string \<Rightarrow> (nat list \<times> nat list) option" where
  "mantissa s =
     (case split_once ''.'' s of
        None \<Rightarrow> map_option (\<lambda>ds. (ds, [])) (digitpart s)
      | Some (ip, fp) \<Rightarrow>
          if ip = [] \<and> fp = [] then None
          else
            (case (if ip = [] then Some [] else digitpart ip,
                   if fp = [] then Some [] else digitpart fp) of
               (Some ds, Some fs) \<Rightarrow> Some (ds, fs)
             | _ \<Rightarrow> None))"

definition pow10 :: "int \<Rightarrow> rat" where
  "pow10 e = (if 0 \<le> e then 10 ^ nat e else 1 / 10 ^ nat (- e))"

text \<open>\<^verbatim>\<open>float(s)\<close> on a decimal literal, as the exact rational the literal denotes;
  \<open>None\<close> is the \<^verbatim>\<open>ValueError\<close>. The words \<^verbatim>\<open>inf\<close>, \<^verbatim>\<open>infinity\<close> and \<^verbatim>\<open>nan\<close>, which
  \<^verbatim>\<open>float()\<close> accepts too, have no point in them, and the program calls \<^verbatim>\<open>float()\<close> only on
  a string with a point.\<close>

definition py_float :: "string \<Rightarrow> rat option" where
  "py_float s =
     (let (neg, body) = split_sign (strip s);
          (m, e) = (case split_once ''e'' (lower body) of
                      None \<Rightarrow> (body, Some 0)
                    | Some (a, b) \<Rightarrow> (a, exponent b)) in
      case (mantissa m, e) of
        (Some (ds, fs), Some x) \<Rightarrow>
          (let v = (of_nat (decimal ds) + of_nat (decimal fs) / 10 ^ length fs) * pow10 x in
           Some (if neg then - v else v))
      | _ \<Rightarrow> None)"

section \<open>The path parser\<close>

text \<open>
  \<^verbatim>\<open>parse_query_path\<close>: the loop over the characters of the path, with the text still to
  read, the accumulated name \<^verbatim>\<open>current\<close> and the components so far. A bracket group runs to
  the next \<^verbatim>\<open>]\<close> or to the end of the text.
\<close>

definition bracket :: "string \<Rightarrow> component" where
  "bracket index_str =
     (if index_str = ''*'' then Key ''*''
      else case py_int index_str of Some n \<Rightarrow> Idx n | None \<Rightarrow> Key index_str)"

definition flush :: "string \<Rightarrow> component list \<Rightarrow> component list" where
  "flush current components = (if current \<noteq> [] then components @ [Key current] else components)"

function path_loop :: "string \<Rightarrow> string \<Rightarrow> component list \<Rightarrow> component list" where
  "path_loop [] current components = flush current components"
| "path_loop (c # cs) current components =
     (if c = CHR ''.'' then path_loop cs [] (flush current components)
      else if c = CHR ''['' then
        path_loop (drop 1 (dropWhile (\<lambda>x. x \<noteq> CHR '']'') cs)) []
          (flush current components @ [bracket (takeWhile (\<lambda>x. x \<noteq> CHR '']'') cs)])
      else path_loop cs (current @ [c]) components)"
  by pat_completeness auto
termination
proof (relation "measure (\<lambda>(s, cur, comps). length s)")
  fix c :: char and cs :: string
  have "length (dropWhile (\<lambda>x. x \<noteq> CHR '']'') cs) \<le> length cs"
    by (rule length_dropWhile_le)
  then show "((drop 1 (dropWhile (\<lambda>x. x \<noteq> CHR '']'') cs), [], flush current components @ [bracket (takeWhile (\<lambda>x. x \<noteq> CHR '']'') cs)]), (c # cs, current, components)) \<in> measure (\<lambda>(s, cur, comps). length s)"
    for current components
    by simp
qed auto

definition parse_query_path :: "string \<Rightarrow> component list" where
  "parse_query_path path = path_loop path [] []"

section \<open>The path evaluator\<close>

text \<open>\<^verbatim>\<open>data[component]\<close> on a list: a negative index counts from the end; \<open>None\<close> is
  the \<^verbatim>\<open>IndexError\<close>.\<close>

definition getitem :: "'a list \<Rightarrow> int \<Rightarrow> 'a option" where
  "getitem xs i =
     (if 0 \<le> i then (if i < int (length xs) then Some (xs ! nat i) else None)
      else (if - int (length xs) \<le> i then Some (xs ! nat (int (length xs) + i)) else None))"

text \<open>The results that are not \<^verbatim>\<open>None\<close>, and \<^verbatim>\<open>results if results else None\<close>.\<close>

definition collect :: "pyval list \<Rightarrow> pyval" where
  "collect rs = (let results = filter (\<lambda>r. r \<noteq> PNone) rs in if results \<noteq> [] then PList results else PNone)"

text \<open>The values \<^verbatim>\<open>item[component]\<close> of the items that are dicts with the key.\<close>

definition project :: "string \<Rightarrow> pyval list \<Rightarrow> pyval list" where
  "project k items = List.map_filter (\<lambda>item. case item of PDict d \<Rightarrow> map_of d k | _ \<Rightarrow> None) items"

fun query_data :: "pyval \<Rightarrow> component list \<Rightarrow> pyval" where
  "query_data data [] = data"
| "query_data data (component # remaining) =
     (if component = Key ''*'' then
        (case data of
           PList items \<Rightarrow> collect (map (\<lambda>item. query_data item remaining) items)
         | _ \<Rightarrow> PNone)
      else
        (case data of
           PDict d \<Rightarrow>
             (case component of
                Key k \<Rightarrow> (case map_of d k of Some v \<Rightarrow> query_data v remaining | None \<Rightarrow> PNone)
              | Idx n \<Rightarrow> PNone)
         | PList items \<Rightarrow>
             (case component of
                Idx n \<Rightarrow> (case getitem items n of Some v \<Rightarrow> query_data v remaining | None \<Rightarrow> PNone)
              | Key k \<Rightarrow> collect (map (\<lambda>v. query_data v remaining) (project k items)))
         | _ \<Rightarrow> PNone))"

section \<open>The filter\<close>

subsection \<open>Python's comparisons on these objects\<close>

text \<open>
  \<^verbatim>\<open>bool\<close> is a subclass of \<^verbatim>\<open>int\<close>: \<^verbatim>\<open>True\<close> counts as 1 and \<^verbatim>\<open>False\<close> as 0 in every
  comparison and sum, and \<^verbatim>\<open>isinstance(True, int)\<close> holds.
\<close>

fun is_number :: "pyval \<Rightarrow> bool" where
  "is_number (PBool b) = True"
| "is_number (PInt i) = True"
| "is_number (PFloat r) = True"
| "is_number v = False"

fun rat_of :: "pyval \<Rightarrow> rat" where
  "rat_of (PBool b) = (if b then 1 else 0)"
| "rat_of (PInt i) = of_int i"
| "rat_of (PFloat r) = r"
| "rat_of v = 0"

text \<open>\<^verbatim>\<open>a == b\<close>: numbers by value, strings and lists by content, dicts by their
  keys and values whatever the order; objects of different kinds are unequal.\<close>

fun py_eq :: "pyval \<Rightarrow> pyval \<Rightarrow> bool"
  and py_eq_list :: "pyval list \<Rightarrow> pyval list \<Rightarrow> bool"
  and py_eq_dict :: "(string \<times> pyval) list \<Rightarrow> (string \<times> pyval) list \<Rightarrow> bool" where
  "py_eq PNone b = (b = PNone)"
| "py_eq (PBool x) b = (is_number b \<and> rat_of (PBool x) = rat_of b)"
| "py_eq (PInt x) b = (is_number b \<and> rat_of (PInt x) = rat_of b)"
| "py_eq (PFloat x) b = (is_number b \<and> rat_of (PFloat x) = rat_of b)"
| "py_eq (PStr x) b = (b = PStr x)"
| "py_eq (PList xs) b = (case b of PList ys \<Rightarrow> py_eq_list xs ys | _ \<Rightarrow> False)"
| "py_eq (PDict d) b = (case b of PDict e \<Rightarrow> length d = length e \<and> py_eq_dict d e | _ \<Rightarrow> False)"
| "py_eq_list [] ys = (ys = [])"
| "py_eq_list (x # xs) ys = (case ys of [] \<Rightarrow> False | y # ys' \<Rightarrow> py_eq x y \<and> py_eq_list xs ys')"
| "py_eq_dict [] e = True"
| "py_eq_dict ((k, v) # d) e =
     ((case map_of e k of None \<Rightarrow> False | Some w \<Rightarrow> py_eq v w) \<and> py_eq_dict d e)"

datatype ordering = Gt | Lt | Ge | Le

fun holds :: "ordering \<Rightarrow> ('a :: linorder) \<Rightarrow> 'a \<Rightarrow> bool" where
  "holds Gt x y = (x > y)"
| "holds Lt x y = (x < y)"
| "holds Ge x y = (x \<ge> y)"
| "holds Le x y = (x \<le> y)"

text \<open>Strings are ordered by their code points, position by position.\<close>

fun str_less :: "string \<Rightarrow> string \<Rightarrow> bool" where
  "str_less [] [] = False"
| "str_less [] (y # ys) = True"
| "str_less (x # xs) [] = False"
| "str_less (x # xs) (y # ys) =
     ((of_char x :: nat) < of_char y \<or> (x = y \<and> str_less xs ys))"

fun str_holds :: "ordering \<Rightarrow> string \<Rightarrow> string \<Rightarrow> bool" where
  "str_holds Gt x y = str_less y x"
| "str_holds Lt x y = str_less x y"
| "str_holds Ge x y = (\<not> str_less x y)"
| "str_holds Le x y = (\<not> str_less y x)"

text \<open>
  \<^verbatim>\<open>a > b\<close>, \<^verbatim>\<open>a < b\<close>, \<^verbatim>\<open>a >= b\<close>, \<^verbatim>\<open>a <= b\<close>; \<open>None\<close> is the \<^verbatim>\<open>TypeError\<close>. Numbers and
  strings are ordered; two lists are ordered by their first unequal items, or by their
  lengths when one is a prefix of the other; nothing else is.
\<close>

fun py_cmp :: "ordering \<Rightarrow> pyval \<Rightarrow> pyval \<Rightarrow> bool option"
  and py_cmp_list :: "ordering \<Rightarrow> pyval list \<Rightarrow> pyval list \<Rightarrow> bool option" where
  "py_cmp ord (PBool x) b = (if is_number b then Some (holds ord (rat_of (PBool x)) (rat_of b)) else None)"
| "py_cmp ord (PInt x) b = (if is_number b then Some (holds ord (rat_of (PInt x)) (rat_of b)) else None)"
| "py_cmp ord (PFloat x) b = (if is_number b then Some (holds ord (rat_of (PFloat x)) (rat_of b)) else None)"
| "py_cmp ord (PStr x) b = (case b of PStr y \<Rightarrow> Some (str_holds ord x y) | _ \<Rightarrow> None)"
| "py_cmp ord (PList xs) b = (case b of PList ys \<Rightarrow> py_cmp_list ord xs ys | _ \<Rightarrow> None)"
| "py_cmp ord PNone b = None"
| "py_cmp ord (PDict d) b = None"
| "py_cmp_list ord [] ys = Some (holds ord 0 (length ys))"
| "py_cmp_list ord (x # xs) ys =
     (case ys of
        [] \<Rightarrow> Some (holds ord (Suc (length xs)) 0)
      | y # ys' \<Rightarrow> if py_eq x y then py_cmp_list ord xs ys' else py_cmp ord x y)"

text \<open>\<^verbatim>\<open>re.search(pattern, subject, flags)\<close> is taken as a parameter: whether to ignore
  case, the pattern and the subject give whether there is a match, or \<open>None\<close> when
  \<^verbatim>\<open>re\<close> raises (\<^verbatim>\<open>re.error\<close> on a pattern that does not compile).\<close>

type_synonym regex = "bool \<Rightarrow> string \<Rightarrow> string \<Rightarrow> bool option"

text \<open>\<^verbatim>\<open>try: ... except (TypeError, AttributeError): return False\<close>.\<close>

definition swallow :: "bool option \<Rightarrow> bool" where
  "swallow r = (case r of Some b \<Rightarrow> b | None \<Rightarrow> False)"

definition check_condition :: "regex \<Rightarrow> pyval \<Rightarrow> string \<Rightarrow> pyval \<Rightarrow> error + bool" where
  "check_condition re_search item_value operator filter_value =
     (if operator = ''=='' then Inr (py_eq item_value filter_value)
      else if operator = ''!='' then Inr (\<not> py_eq item_value filter_value)
      else if operator = ''>'' then Inr (swallow (py_cmp Gt item_value filter_value))
      else if operator = ''<'' then Inr (swallow (py_cmp Lt item_value filter_value))
      else if operator = ''>='' then Inr (swallow (py_cmp Ge item_value filter_value))
      else if operator = ''<='' then Inr (swallow (py_cmp Le item_value filter_value))
      else if operator = ''~'' then
        (case (item_value, filter_value) of
           (PStr subject, PStr pattern) \<Rightarrow>
             (case re_search False pattern subject of
                None \<Rightarrow> Inl ReError
              | Some found \<Rightarrow> Inr found)
         | _ \<Rightarrow> Inr False)
      else Inr False)"

subsection \<open>The literal and the expression\<close>

definition quoted :: "string \<Rightarrow> bool" where
  "quoted v = ((startswith v [CHR 0x22] \<and> endswith v [CHR 0x22])
             \<or> (startswith v [CHR 0x27] \<and> endswith v [CHR 0x27]))"

text \<open>\<^verbatim>\<open>float(value) if '.' in value else int(value)\<close>; \<open>None\<close> is the \<^verbatim>\<open>ValueError\<close>.\<close>

definition number :: "string \<Rightarrow> pyval option" where
  "number v = (if contains ''.'' v then map_option PFloat (py_float v) else map_option PInt (py_int v))"

definition parse_filter_value :: "string \<Rightarrow> pyval" where
  "parse_filter_value v =
     (let val = strip v in
      if quoted val then PStr (unquote val)
      else if lower val = ''true'' then PBool True
      else if lower val = ''false'' then PBool False
      else if lower val \<in> set [''null'', ''none''] then PNone
      else case number val of Some n \<Rightarrow> n | None \<Rightarrow> PStr val)"

definition operators :: "string list" where
  "operators = [''=='', ''!='', ''>='', ''<='', ''>'', ''<'', ''~'']"

text \<open>The loop over the operators, up to its \<^verbatim>\<open>break\<close>: the key, the raw value and the
  operator found, or \<open>None\<close> when no operator occurs. \<^verbatim>\<open>parts[1]\<close> raises when the split
  gives one part.\<close>

fun find_operator :: "string list \<Rightarrow> string \<Rightarrow> error + (string \<times> string \<times> string) option" where
  "find_operator [] filter_expr = Inr None"
| "find_operator (op # ops) filter_expr =
     (if contains op filter_expr then
        (case split_once op filter_expr of
           None \<Rightarrow> Inl IndexError
         | Some (a, b) \<Rightarrow> Inr (Some (strip a, strip b, op)))
      else find_operator ops filter_expr)"

text \<open>The loop over the items of a list, stopped by the first exception.\<close>

fun filter_items :: "regex \<Rightarrow> string \<Rightarrow> string \<Rightarrow> pyval \<Rightarrow> pyval list \<Rightarrow> error + pyval list" where
  "filter_items re_search key operator parsed_value [] = Inr []"
| "filter_items re_search key operator parsed_value (item # items) =
     (case (case item of
              PDict d \<Rightarrow>
                (case map_of d key of
                   Some item_value \<Rightarrow> check_condition re_search item_value operator parsed_value
                 | None \<Rightarrow> Inr False)
            | _ \<Rightarrow> Inr False) of
        Inl e \<Rightarrow> Inl e
      | Inr keep \<Rightarrow>
          (case filter_items re_search key operator parsed_value items of
             Inl e \<Rightarrow> Inl e
           | Inr filtered \<Rightarrow> Inr (if keep then item # filtered else filtered)))"

definition filter_data :: "regex \<Rightarrow> pyval \<Rightarrow> string \<Rightarrow> error + pyval" where
  "filter_data re_search data filter_expr =
     (if filter_expr = [] then Inr data
      else
        (case find_operator operators filter_expr of
           Inl e \<Rightarrow> Inl e
         | Inr None \<Rightarrow> Inr data
         | Inr (Some (key, val, operator)) \<Rightarrow>
             (let parsed_value = parse_filter_value val in
              case data of
                PList items \<Rightarrow>
                  (case filter_items re_search key operator parsed_value items of
                     Inl e \<Rightarrow> Inl e
                   | Inr filtered \<Rightarrow> Inr (PList filtered))
              | PDict d \<Rightarrow>
                  (case map_of d key of
                     Some item_value \<Rightarrow>
                       (case check_condition re_search item_value operator parsed_value of
                          Inl e \<Rightarrow> Inl e
                        | Inr keep \<Rightarrow> Inr (if keep then data else PNone))
                   | None \<Rightarrow> Inr PNone)
              | _ \<Rightarrow> Inr PNone)))"

text \<open>Filtering the result of a filter with the same expression.\<close>

definition filter_twice :: "regex \<Rightarrow> pyval \<Rightarrow> string \<Rightarrow> error + pyval" where
  "filter_twice re_search data filter_expr =
     (case filter_data re_search data filter_expr of
        Inl e \<Rightarrow> Inl e
      | Inr once \<Rightarrow> filter_data re_search once filter_expr)"

section \<open>The tree scanners\<close>

text \<open>\<^verbatim>\<open>str(i)\<close> of an index.\<close>

function str_nat :: "nat \<Rightarrow> string" where
  "str_nat n = (if n < 10 then [char_of (48 + n)] else str_nat (n div 10) @ [char_of (48 + n mod 10)])"
  by pat_completeness auto
termination
  by (relation "measure id") auto

text \<open>
  \<^verbatim>\<open>search_recursive\<close> appends to \<^verbatim>\<open>results\<close>; here each call returns what it appended,
  in order, or the exception of \<^verbatim>\<open>re.search\<close>. The two loops are functions of their
  own, the one over a list with the index \<^verbatim>\<open>enumerate\<close> gives.
\<close>

fun search_recursive :: "regex \<Rightarrow> string \<Rightarrow> bool \<Rightarrow> pyval \<Rightarrow> string \<Rightarrow> error + (string \<times> string) list"
  and search_items :: "regex \<Rightarrow> string \<Rightarrow> bool \<Rightarrow> (string \<times> pyval) list \<Rightarrow> string \<Rightarrow> error + (string \<times> string) list"
  and search_enumerate :: "regex \<Rightarrow> string \<Rightarrow> bool \<Rightarrow> nat \<Rightarrow> pyval list \<Rightarrow> string \<Rightarrow> error + (string \<times> string) list" where
  "search_recursive re_search pattern ignorecase (PDict d) path = search_items re_search pattern ignorecase d path"
| "search_recursive re_search pattern ignorecase (PList xs) path = search_enumerate re_search pattern ignorecase 0 xs path"
| "search_recursive re_search pattern ignorecase (PStr obj) path =
     (case re_search ignorecase pattern obj of
        None \<Rightarrow> Inl ReError
      | Some found \<Rightarrow> Inr (if found then [(path, obj)] else []))"
| "search_recursive re_search pattern ignorecase PNone path = Inr []"
| "search_recursive re_search pattern ignorecase (PBool b) path = Inr []"
| "search_recursive re_search pattern ignorecase (PInt n) path = Inr []"
| "search_recursive re_search pattern ignorecase (PFloat r) path = Inr []"
| "search_items re_search pattern ignorecase [] path = Inr []"
| "search_items re_search pattern ignorecase ((key, val) # rest) path =
     (let new_path = (if path \<noteq> [] then path @ ''.'' @ key else key) in
      case search_recursive re_search pattern ignorecase val new_path of
        Inl e \<Rightarrow> Inl e
      | Inr found \<Rightarrow>
          (case search_items re_search pattern ignorecase rest path of
             Inl e \<Rightarrow> Inl e
           | Inr more \<Rightarrow> Inr (found @ more)))"
| "search_enumerate re_search pattern ignorecase i [] path = Inr []"
| "search_enumerate re_search pattern ignorecase i (item # rest) path =
     (let new_path = path @ ''['' @ str_nat i @ '']'' in
      case search_recursive re_search pattern ignorecase item new_path of
        Inl e \<Rightarrow> Inl e
      | Inr found \<Rightarrow>
          (case search_enumerate re_search pattern ignorecase (Suc i) rest path of
             Inl e \<Rightarrow> Inl e
           | Inr more \<Rightarrow> Inr (found @ more)))"


text \<open>\<^verbatim>\<open>collect_numbers\<close> appends to \<^verbatim>\<open>numbers\<close> every object that is an instance of
  \<^verbatim>\<open>int\<close> or \<^verbatim>\<open>float\<close>; here it returns what it appended, in order.\<close>

fun collect_numbers :: "pyval \<Rightarrow> pyval list"
  and collect_values :: "(string \<times> pyval) list \<Rightarrow> pyval list"
  and collect_each :: "pyval list \<Rightarrow> pyval list" where
  "collect_numbers (PBool b) = [PBool b]"
| "collect_numbers (PInt n) = [PInt n]"
| "collect_numbers (PFloat r) = [PFloat r]"
| "collect_numbers (PDict d) = collect_values d"
| "collect_numbers (PList xs) = collect_each xs"
| "collect_numbers PNone = []"
| "collect_numbers (PStr s) = []"
| "collect_values [] = []"
| "collect_values ((key, val) # rest) = collect_numbers val @ collect_values rest"
| "collect_each [] = []"
| "collect_each (item # rest) = collect_numbers item @ collect_each rest"

text \<open>\<^verbatim>\<open>a + b\<close> on numbers: an \<^verbatim>\<open>int\<close> when neither is a \<^verbatim>\<open>float\<close>.\<close>

fun is_float :: "pyval \<Rightarrow> bool" where
  "is_float (PFloat r) = True"
| "is_float v = False"

fun int_of :: "pyval \<Rightarrow> int" where
  "int_of (PBool b) = (if b then 1 else 0)"
| "int_of (PInt i) = i"
| "int_of v = 0"

definition py_add :: "pyval \<Rightarrow> pyval \<Rightarrow> pyval" where
  "py_add a b = (if is_float a \<or> is_float b then PFloat (rat_of a + rat_of b) else PInt (int_of a + int_of b))"

definition py_sum :: "pyval list \<Rightarrow> pyval" where
  "py_sum numbers = foldl py_add (PInt 0) numbers"

text \<open>\<^verbatim>\<open>min\<close> and \<^verbatim>\<open>max\<close> keep the first of the smallest, or largest, items.\<close>

definition py_min :: "pyval \<Rightarrow> pyval list \<Rightarrow> pyval" where
  "py_min x xs = foldl (\<lambda>m y. if rat_of y < rat_of m then y else m) x xs"

definition py_max :: "pyval \<Rightarrow> pyval list \<Rightarrow> pyval" where
  "py_max x xs = foldl (\<lambda>m y. if rat_of y > rat_of m then y else m) x xs"

definition calculate_stats :: "pyval \<Rightarrow> pyval" where
  "calculate_stats data =
     (case collect_numbers data of
        [] \<Rightarrow> PDict [(''error'', PStr ''No numeric values found'')]
      | x # xs \<Rightarrow>
          (let numbers = x # xs in
           PDict [(''count'', PInt (int (length numbers))),
                  (''sum'', py_sum numbers),
                  (''avg'', PFloat (rat_of (py_sum numbers) / of_nat (length numbers))),
                  (''min'', py_min x xs),
                  (''max'', py_max x xs)]))"

section \<open>The minimal YAML parser\<close>

text \<open>\<^verbatim>\<open>_parse_value\<close>: the scalar of a YAML value.\<close>

definition parse_value :: "string \<Rightarrow> pyval" where
  "parse_value v =
     (let val = strip v in
      if lower val \<in> set [''true'', ''yes'', ''on''] then PBool True
      else if lower val \<in> set [''false'', ''no'', ''off''] then PBool False
      else if lower val \<in> set [''null'', ''none'', ''~''] then PNone
      else case number val of
             Some n \<Rightarrow> n
           | None \<Rightarrow> if quoted val then PStr (unquote val) else PStr val)"

text \<open>The local variables of \<^verbatim>\<open>_parse_lines\<close> that the loop changes; an unset
  \<^verbatim>\<open>current_key\<close> is \<open>None\<close>.\<close>

record locals =
  result :: "(string \<times> pyval) list"
  current_list :: "pyval list"
  current_key :: "string option"
  in_list :: bool

definition initial :: locals where
  "initial = \<lparr>result = [], current_list = [], current_key = None, in_list = False\<rparr>"

text \<open>\<^verbatim>\<open>d[k] = v\<close>: a new key goes last, a known key keeps its place.\<close>

definition setitem :: "string \<Rightarrow> pyval \<Rightarrow> (string \<times> pyval) list \<Rightarrow> (string \<times> pyval) list" where
  "setitem k v d = (if map_of d k = None then d @ [(k, v)] else map (\<lambda>(k', v'). if k' = k then (k', v) else (k', v')) d)"

text \<open>\<^verbatim>\<open>if current_key:\<close> holds for a key that is set and not the empty string.\<close>

definition truthy :: "string option \<Rightarrow> bool" where
  "truthy k = (case k of None \<Rightarrow> False | Some s \<Rightarrow> s \<noteq> [])"

text \<open>Empty lines and comments.\<close>

definition skipped :: "string \<Rightarrow> bool" where
  "skipped line = (strip line = [] \<or> startswith (strip line) ''#'')"

definition indent_of :: "string \<Rightarrow> nat" where
  "indent_of line = length line - length (lstrip line)"

text \<open>What \<^verbatim>\<open>_parse_lines\<close> returns after the loop, beside the index.\<close>

definition returned :: "locals \<Rightarrow> pyval" where
  "returned st =
     (if in_list st then PList (current_list st)
      else if result st \<noteq> [] then PDict (result st) else PNone)"

text \<open>The body of \<^verbatim>\<open>if stripped.startswith('- ')\<close>. Unpacking \<^verbatim>\<open>key, val\<close> raises
  \<^verbatim>\<open>ValueError\<close> when the split gives one part.\<close>

definition list_item :: "string \<Rightarrow> locals \<Rightarrow> error + locals" where
  "list_item stripped st =
     (let val = strip (drop 2 stripped) in
      if contains '': '' val then
        (case split_once '': '' val of
           None \<Rightarrow> Inl ValueError
         | Some (key, v) \<Rightarrow>
             Inr (st\<lparr>in_list := True, current_list := current_list st @ [PDict [(key, parse_value v)]]\<rparr>))
      else Inr (st\<lparr>in_list := True, current_list := current_list st @ [parse_value val]\<rparr>))"

text \<open>The body of \<^verbatim>\<open>if ': ' in stripped\<close>.\<close>

definition key_value :: "string \<Rightarrow> locals \<Rightarrow> error + locals" where
  "key_value stripped st =
     (case split_once '': '' stripped of
        None \<Rightarrow> Inl ValueError
      | Some (k, v) \<Rightarrow>
          (let key = strip k; val = strip v in
           if val \<noteq> [] then Inr (st\<lparr>result := setitem key (parse_value val) (result st)\<rparr>)
           else Inr (st\<lparr>current_key := Some key\<rparr>)))"

text \<open>
  The \<^verbatim>\<open>while\<close> loop of \<^verbatim>\<open>_parse_lines\<close>, from index \<open>i\<close> with the locals \<open>st\<close>, to
  the locals and the index at its end. The recursive call of \<^verbatim>\<open>_parse_lines\<close> on
  \<^verbatim>\<open>lines[i:]\<close> is the loop on \<open>drop i lines\<close> from index 0 with fresh locals.
\<close>

function parse_loop :: "string list \<Rightarrow> nat \<Rightarrow> nat \<Rightarrow> locals \<Rightarrow> error + (locals \<times> nat)" where
  "parse_loop lines start_indent i st =
     (if \<not> i < length lines then Inr (st, i)
      else if skipped (lines ! i) then parse_loop lines start_indent (i + 1) st
      else if indent_of (lines ! i) < start_indent then Inr (st, i)
      else if indent_of (lines ! i) > start_indent then
        (if truthy (current_key st) then
           (case parse_loop (drop i lines) (indent_of (lines ! i)) 0 initial of
              Inl e \<Rightarrow> Inl e
            | Inr (nested, lines_consumed) \<Rightarrow>
                parse_loop lines start_indent (i + lines_consumed)
                  (st\<lparr>result := setitem (case current_key st of Some k \<Rightarrow> k | None \<Rightarrow> []) (returned nested) (result st),
                      current_key := None\<rparr>))
         else parse_loop lines start_indent (i + 1) st)
      else if startswith (strip (lines ! i)) ''- '' then
        (case list_item (strip (lines ! i)) st of
           Inl e \<Rightarrow> Inl e
         | Inr st' \<Rightarrow> parse_loop lines start_indent (i + 1) st')
      else if contains '': '' (strip (lines ! i)) then
        (case key_value (strip (lines ! i)) st of
           Inl e \<Rightarrow> Inl e
         | Inr st' \<Rightarrow> parse_loop lines start_indent (i + 1) st')
      else parse_loop lines start_indent (i + 1) st)"
  by pat_completeness auto

text \<open>The loop never goes back, and it goes past a line of its own indentation; so the
  index grows after a nested block, which gives the termination of the loop.\<close>

lemma parse_loop_advances:
  assumes "parse_loop_dom (lines, start_indent, i, st)"
    and "parse_loop lines start_indent i st = Inr (st', n)"
  shows "i \<le> n \<and> (i < length lines \<and> \<not> skipped (lines ! i) \<and> indent_of (lines ! i) = start_indent \<longrightarrow> i < n)"
  using assms
proof (induction arbitrary: st' n rule: parse_loop.pinduct)
  case (1 lines start_indent i st)
  show ?case
    using "1.prems" "1.IH" "1.hyps"
    apply (subst (asm) parse_loop.psimps)
     apply assumption
    apply (fastforce split: if_splits sum.splits prod.splits dest: Suc_leD add_leD1)
    done
qed

lemma indent_of_le: "i < length lines \<Longrightarrow> indent_of (lines ! i) \<le> sum_list (map length (drop i lines))"
proof -
  assume "i < length lines"
  then have "drop i lines = lines ! i # drop (Suc i) lines"
    by (simp add: Cons_nth_drop_Suc)
  then show ?thesis
    by (simp add: indent_of_def)
qed

lemma sum_list_drop_le: "sum_list (map length (drop i lines)) \<le> sum_list (map length (lines :: string list))"
proof -
  have "sum_list (map length lines) = sum_list (map length (take i lines)) + sum_list (map length (drop i lines))"
    by (metis append_take_drop_id map_append sum_list.append)
  then show ?thesis by simp
qed

termination parse_loop
proof (relation "measures [\<lambda>(ls, s, i, st). sum_list (map length ls) - s, \<lambda>(ls, s, i, st). length ls - i]", goal_cases)
  case 1
  show ?case by simp
next
  case (2 lines start_indent i st)
  then show ?case by auto
next
  case (3 lines start_indent i st)
  have "indent_of (lines ! i) \<le> sum_list (map length (drop i lines))"
    using 3 indent_of_le by simp
  moreover have "sum_list (map length (drop i lines)) \<le> sum_list (map length lines)"
    by (rule sum_list_drop_le)
  ultimately show ?case using 3 by auto
next
  case (4 lines start_indent i st x2 x y)
  have "0 < y"
    using 4 parse_loop_advances [of "drop i lines" "indent_of (lines ! i)" 0 initial x y]
    by simp
  then show ?case using 4 by auto
qed auto

declare parse_loop.simps [simp del]

text \<open>\<^verbatim>\<open>_parse_lines\<close> and \<^verbatim>\<open>parse\<close>.\<close>

definition parse_lines :: "string list \<Rightarrow> nat \<Rightarrow> error + (pyval \<times> nat)" where
  "parse_lines lines start_indent =
     (case parse_loop lines start_indent 0 initial of
        Inl e \<Rightarrow> Inl e
      | Inr (st, i) \<Rightarrow> Inr (returned st, i))"

text \<open>\<^verbatim>\<open>text.split('\n')\<close>.\<close>

fun split_lines :: "string \<Rightarrow> string list" where
  "split_lines [] = [] # []"
| "split_lines (c # cs) =
     (if c = CHR 0x0A then [] # split_lines cs
      else (case split_lines cs of [] \<Rightarrow> [c] # [] | l # ls \<Rightarrow> (c # l) # ls))"

definition parse :: "string \<Rightarrow> error + pyval" where
  "parse text = map_sum id fst (parse_lines (split_lines (strip text)) 0)"

section \<open>Notions used in the statements\<close>

text \<open>The variants of a value: \<^verbatim>\<open>int\<close> and \<^verbatim>\<open>float\<close> are the numbers, \<^verbatim>\<open>bool\<close> is a
  variant of its own.\<close>

datatype kind = Null | Bool | Number | String | Sequence | Mapping

fun kind_of :: "pyval \<Rightarrow> kind" where
  "kind_of PNone = Null"
| "kind_of (PBool b) = Bool"
| "kind_of (PInt i) = Number"
| "kind_of (PFloat r) = Number"
| "kind_of (PStr s) = String"
| "kind_of (PList xs) = Sequence"
| "kind_of (PDict d) = Mapping"


text \<open>The item that an item line stands for: a dict of one key when what follows the
  marker has a \<^verbatim>\<open>: \<close> in it, split at the first one, and the scalar of what follows the
  marker otherwise.\<close>

definition item_value :: "string \<Rightarrow> pyval" where
  "item_value line =
     (let val = strip (drop 2 (strip line)) in
      case split_once '': '' val of
        Some (key, v) \<Rightarrow> PDict [(key, parse_value v)]
      | None \<Rightarrow> parse_value val)"


text \<open>Two instances of \<^verbatim>\<open>re.search\<close> for concrete inputs: one that raises on every
  pattern, and the search for the pattern as a plain substring.\<close>

definition no_regex :: regex where
  "no_regex ignorecase pattern subject = None"


section \<open>Properties of the path evaluator\<close>

text \<open>
  Claim C1, as amended. \<^verbatim>\<open>query_data\<close> has one result, \<^verbatim>\<open>None\<close>, both for a key that is
  not there and for a key whose value is null: for every dict that maps \<open>k\<close> to null and
  has no key \<open>k'\<close>, the path \<open>[k]\<close> and the path \<open>[k']\<close> both evaluate to \<^verbatim>\<open>None\<close>.
\<close>

theorem query_null_is_absent:
  "map_of d k = Some PNone \<Longrightarrow> map_of d k' = None \<Longrightarrow>
   query_data (PDict d) [Key k] = PNone \<and> query_data (PDict d) [Key k'] = PNone"
  by simp

theorem query_null_is_absent_witness:
  "map_of [(''a'', PNone)] ''a'' = Some PNone \<and> map_of [(''a'', PNone)] ''b'' = None \<and>
   query_data (PDict [(''a'', PNone)]) [Key ''a''] = PNone \<and>
   query_data (PDict [(''a'', PNone)]) [Key ''b''] = PNone"
  using query_null_is_absent [of "[(''a'', PNone)]" "''a''" "''b''"] by simp

text \<open>The claim as it was stated asks for two different results here.\<close>

theorem query_null_distinct_counterexample:
  "query_data (PDict [(''a'', PNone)]) [Key ''a''] = query_data (PDict [(''a'', PNone)]) [Key ''b'']"
  by simp

text \<open>
  Claim C2, as amended. Against a list, the wildcard followed by a path \<open>rest\<close> gives
  the results of \<open>rest\<close> on the items, in the order of the items, without those that are
  \<^verbatim>\<open>None\<close>, be it for a value that is not there or for a value that is null, and \<^verbatim>\<open>None\<close>
  when none is left; against anything that is not a list it gives \<^verbatim>\<open>None\<close>.
\<close>

theorem wildcard_distributes:
  "query_data (PList items) (Key ''*'' # rest) =
     (let rs = filter (\<lambda>r. r \<noteq> PNone) (map (\<lambda>item. query_data item rest) items)
      in if rs = [] then PNone else PList rs)
   \<and> ((\<forall>xs. v \<noteq> PList xs) \<longrightarrow> query_data v (Key ''*'' # rest) = PNone)"
  by (cases v) (simp_all add: collect_def Let_def)

theorem wildcard_distributes_witness:
  "query_data (PList [PDict [(''a'', PInt 1)], PDict [(''b'', PInt 2)], PDict [(''a'', PNone)], PDict [(''a'', PInt 3)]])
     [Key ''*'', Key ''a''] = PList [PInt 1, PInt 3]
   \<and> (\<forall>xs. PInt 5 \<noteq> PList xs)
   \<and> query_data (PInt 5) [Key ''*'', Key ''a''] = PNone"
  using wildcard_distributes [of "[PDict [(''a'', PInt 1)], PDict [(''b'', PInt 2)], PDict [(''a'', PNone)], PDict [(''a'', PInt 3)]]"
      "[Key ''a'']" "PInt 5"]
  by simp

text \<open>The claim as it was stated keeps every result that is located, a null too.\<close>

theorem wildcard_drops_null_counterexample:
  "[query_data PNone [], query_data (PInt 1) []] = [PNone, PInt 1]
   \<and> query_data (PList [PNone, PInt 1]) [Key ''*''] = PList [PInt 1]
   \<and> query_data (PDict [(''a'', PNone)]) [Key ''a''] = PNone
   \<and> query_data (PList [PDict [(''a'', PNone)], PDict [(''a'', PInt 1)]]) [Key ''*'', Key ''a'']
       = PList [PInt 1]"
  by (simp add: collect_def)

text \<open>
  Claim C4, as amended. The wildcard is the string \<^verbatim>\<open>'*'\<close> itself: a bare \<^verbatim>\<open>*\<close> in dotted
  syntax and the bracket group \<^verbatim>\<open>[*]\<close> parse to the same component, and the evaluator
  takes it for the wildcard; so the path of the expression \<^verbatim>\<open>*\<close> evaluates to \<^verbatim>\<open>None\<close>
  against every dict, with or without a key \<^verbatim>\<open>*\<close>.
\<close>

theorem bare_star_is_wildcard:
  "parse_query_path ''*'' = [Key ''*''] \<and> parse_query_path ''[*]'' = [Key ''*'']
   \<and> query_data (PDict d) (parse_query_path ''*'') = PNone"
  by (simp add: parse_query_path_def flush_def bracket_def)

text \<open>The claim as it was stated asks for the value stored at the key \<^verbatim>\<open>*\<close>.\<close>

theorem bare_star_field_counterexample:
  "map_of [(''*'', PInt 1)] ''*'' = Some (PInt 1)
   \<and> query_data (PDict [(''*'', PInt 1)]) (parse_query_path ''*'') = PNone"
  by (simp add: parse_query_path_def flush_def bracket_def)

text \<open>
  Claim C5, as amended. Against a list \<open>s\<close>, an index \<open>i\<close> with \<open>i \<ge> len(s)\<close> or
  \<open>i < -len(s)\<close> gives \<^verbatim>\<open>None\<close>; a negative index from \<open>-len(s)\<close> on selects the item
  that is \<open>-i\<close> places from the end, as Python's indexing does, and an index from 0 to
  \<open>len(s) - 1\<close> selects the item at that place; the rest of the path is evaluated on the
  selected item.
\<close>

theorem index_bounds:
  "(int (length s) \<le> i \<or> i < - int (length s) \<longrightarrow> query_data (PList s) (Idx i # rest) = PNone)
   \<and> (- int (length s) \<le> i \<and> i < 0 \<longrightarrow>
        query_data (PList s) (Idx i # rest) = query_data (rev s ! nat (- i - 1)) rest)
   \<and> (0 \<le> i \<and> i < int (length s) \<longrightarrow>
        query_data (PList s) (Idx i # rest) = query_data (s ! nat i) rest)"
proof -
  have "nat (int (length s) + i) = length s - Suc (nat (- i - 1))" if "- int (length s) \<le> i" "i < 0"
    using that by linarith
  moreover have "nat (- i - 1) < length s" if "- int (length s) \<le> i" "i < 0"
    using that by linarith
  ultimately show ?thesis
    by (auto simp: getitem_def rev_nth)
qed

theorem index_bounds_witness:
  "query_data (PList [PInt 1, PInt 2, PInt 3]) [Idx 3] = PNone
   \<and> query_data (PList [PInt 1, PInt 2, PInt 3]) [Idx (- 4)] = PNone
   \<and> query_data (PList [PInt 1, PInt 2, PInt 3]) [Idx (- 2)] = PInt 2
   \<and> query_data (PList [PInt 1, PInt 2, PInt 3]) [Idx 0] = PInt 1"
  using index_bounds [of "[PInt 1, PInt 2, PInt 3]" 3 "[]"]
    index_bounds [of "[PInt 1, PInt 2, PInt 3]" "- 4" "[]"]
    index_bounds [of "[PInt 1, PInt 2, PInt 3]" "- 2" "[]"]
    index_bounds [of "[PInt 1, PInt 2, PInt 3]" 0 "[]"]
  by (simp add: getitem_def)

text \<open>The claim as it was stated asks for \<^verbatim>\<open>None\<close> at a negative index.\<close>

theorem negative_index_counterexample:
  "query_data (PList [PInt 1, PInt 2, PInt 3]) [Idx (- 1)] = PInt 3"
  by (simp add: getitem_def)

section \<open>Properties of the filter\<close>

text \<open>
  Claim C3, as amended. For a field value and a literal of different kinds, other than
  two among \<^verbatim>\<open>bool\<close>, \<^verbatim>\<open>int\<close> and \<^verbatim>\<open>float\<close>, no comparison raises: \<^verbatim>\<open>==\<close> gives false,
  \<^verbatim>\<open>!=\<close> gives true, and \<^verbatim>\<open>>\<close>, \<^verbatim>\<open><\<close>, \<^verbatim>\<open>>=\<close>, \<^verbatim>\<open><=\<close> give false.
\<close>

theorem cross_kind_comparison:
  "kind_of a \<noteq> kind_of b \<Longrightarrow> \<not> (is_number a \<and> is_number b) \<Longrightarrow>
   check_condition re_search a ''=='' b = Inr False
   \<and> check_condition re_search a ''!='' b = Inr True
   \<and> check_condition re_search a ''>'' b = Inr False
   \<and> check_condition re_search a ''<'' b = Inr False
   \<and> check_condition re_search a ''>='' b = Inr False
   \<and> check_condition re_search a ''<='' b = Inr False"
  by (cases a; cases b) (simp_all add: check_condition_def swallow_def)

theorem cross_kind_comparison_witness:
  "kind_of (PInt 1) \<noteq> kind_of (PStr ''a'') \<and> \<not> (is_number (PInt 1) \<and> is_number (PStr ''a''))
   \<and> check_condition no_regex (PInt 1) ''=='' (PStr ''a'') = Inr False
   \<and> check_condition no_regex (PInt 1) ''!='' (PStr ''a'') = Inr True
   \<and> check_condition no_regex (PInt 1) ''>'' (PStr ''a'') = Inr False
   \<and> check_condition no_regex (PInt 1) ''<'' (PStr ''a'') = Inr False
   \<and> check_condition no_regex (PInt 1) ''>='' (PStr ''a'') = Inr False
   \<and> check_condition no_regex (PInt 1) ''<='' (PStr ''a'') = Inr False"
  using cross_kind_comparison [of "PInt 1" "PStr ''a''" no_regex] by simp

text \<open>The claim as it was stated asks for false under every operator, also between a
  \<^verbatim>\<open>bool\<close> and a number.\<close>

theorem cross_kind_false_counterexample:
  "kind_of (PInt 1) \<noteq> kind_of (PStr ''a'')
   \<and> check_condition no_regex (PInt 1) ''!='' (PStr ''a'') = Inr True
   \<and> kind_of (PBool True) \<noteq> kind_of (PInt 1)
   \<and> check_condition no_regex (PBool True) ''=='' (PInt 1) = Inr True
   \<and> check_condition no_regex (PBool True) ''>'' (PInt 0) = Inr True"
  by (simp add: check_condition_def swallow_def)

text \<open>
  Claim C6, as amended. For a token that is no boolean or null word (and, for the filter
  literal, not quoted), the YAML scalar and the filter literal try one numeric parse,
  chosen by the point: \<^verbatim>\<open>float()\<close> for a token with a \<^verbatim>\<open>.\<close> in it, \<^verbatim>\<open>int()\<close> for a token
  without. When that parse fails the result is the string (in YAML without one layer of
  matching quotes); so a token without a point stays a string whenever \<^verbatim>\<open>int()\<close> rejects
  it, whatever \<^verbatim>\<open>float()\<close> would say.
\<close>

theorem numeric_coercion:
  "(\<not> quoted (strip v) \<and> lower (strip v) \<notin> {''true'', ''false'', ''null'', ''none''} \<longrightarrow>
      parse_filter_value v =
        (if contains ''.'' (strip v)
         then (case py_float (strip v) of Some r \<Rightarrow> PFloat r | None \<Rightarrow> PStr (strip v))
         else (case py_int (strip v) of Some n \<Rightarrow> PInt n | None \<Rightarrow> PStr (strip v))))
   \<and> (lower (strip v) \<notin> {''true'', ''yes'', ''on'', ''false'', ''no'', ''off'', ''null'', ''none'', ''~''} \<longrightarrow>
      parse_value v =
        (if contains ''.'' (strip v)
         then (case py_float (strip v) of Some r \<Rightarrow> PFloat r
               | None \<Rightarrow> PStr (if quoted (strip v) then unquote (strip v) else strip v))
         else (case py_int (strip v) of Some n \<Rightarrow> PInt n
               | None \<Rightarrow> PStr (if quoted (strip v) then unquote (strip v) else strip v))))"
  by (auto simp: parse_filter_value_def parse_value_def number_def Let_def split: option.splits)

theorem numeric_coercion_witness:
  "\<not> quoted (strip ''1e5'') \<and> lower (strip ''1e5'') \<notin> {''true'', ''false'', ''null'', ''none''}
   \<and> lower (strip ''1e5'') \<notin> {''true'', ''yes'', ''on'', ''false'', ''no'', ''off'', ''null'', ''none'', ''~''}
   \<and> parse_filter_value ''1e5'' = PStr ''1e5'' \<and> parse_value ''1e5'' = PStr ''1e5''"
proof -
  have a: "strip ''1e5'' = ''1e5''" by code_simp
  have b: "\<not> quoted ''1e5''" by code_simp
  have c: "lower ''1e5'' = ''1e5''" by code_simp
  have d: "\<not> contains ''.'' ''1e5''" by code_simp
  have e: "py_int ''1e5'' = None" by code_simp
  show ?thesis using numeric_coercion [of "''1e5''"] by (simp add: a b c d e del: contains.simps)
qed

text \<open>The claim as it was stated asks for a number from every token that \<^verbatim>\<open>float()\<close>
  accepts; \<^verbatim>\<open>1e5\<close> is one, and stays a string in both parsers.\<close>

theorem exponent_token_counterexample:
  "py_int ''1e5'' = None \<and> py_float ''1e5'' = Some 100000
   \<and> parse_filter_value ''1e5'' = PStr ''1e5'' \<and> parse_value ''1e5'' = PStr ''1e5''"
  by code_simp

text \<open>A list that was filtered passes the same filter whole.\<close>

lemma filter_items_again:
  "filter_items re_search key operator pv items = Inr filtered \<Longrightarrow>
   filter_items re_search key operator pv filtered = Inr filtered"
proof (induction items arbitrary: filtered)
  case Nil
  then show ?case by simp
next
  case (Cons item items)
  then show ?case
    by (auto split: sum.splits pyval.splits option.splits if_splits)
qed

text \<open>
  Claim C8. Filtering twice with the same expression is filtering once: for every value,
  every expression and every behaviour of \<^verbatim>\<open>re.search\<close>, \<^verbatim>\<open>filter_data\<close> applied to its own
  result returns that result again, and raises where the first application raises.
\<close>

theorem filter_idempotent:
  "filter_twice re_search v e = filter_data re_search v e"
  by (auto simp: filter_twice_def filter_data_def Let_def filter_items_again
      split: sum.splits option.splits pyval.splits prod.splits)

section \<open>Properties of the tree scanners\<close>

text \<open>The statistics of the example of the specification, and of data without numbers.\<close>

lemma stats_example:
  "collect_numbers (PList [PInt 1, PFloat (5 / 2), PDict [(''a'', PInt 3)], PList [PInt 4]])
     = [PInt 1, PFloat (5 / 2), PInt 3, PInt 4]
   \<and> calculate_stats (PList [PInt 1, PFloat (5 / 2), PDict [(''a'', PInt 3)], PList [PInt 4]]) =
       PDict [(''count'', PInt 4), (''sum'', PFloat (21 / 2)), (''avg'', PFloat (21 / 8)),
              (''min'', PInt 1), (''max'', PInt 4)]
   \<and> calculate_stats (PList []) = PDict [(''error'', PStr ''No numeric values found'')]"
  by (simp add: calculate_stats_def py_sum_def py_add_def py_min_def py_max_def)

text \<open>
  Claim C7, where the code departs from it. \<^verbatim>\<open>isinstance(obj, (int, float))\<close> holds for
  \<^verbatim>\<open>True\<close> and \<^verbatim>\<open>False\<close>, so \<^verbatim>\<open>collect_numbers\<close> collects the boolean leaves with the
  numbers: the document \<^verbatim>\<open>[true, 2]\<close> has the statistics of two numbers, with minimum
  \<^verbatim>\<open>true\<close>, and \<^verbatim>\<open>{"flag": true}\<close> has statistics where no numeric value exists.
\<close>

theorem stats_collect_bool:
  "collect_numbers (PList [PBool True, PInt 2]) = [PBool True, PInt 2]
   \<and> calculate_stats (PList [PBool True, PInt 2]) =
       PDict [(''count'', PInt 2), (''sum'', PInt 3), (''avg'', PFloat (3 / 2)),
              (''min'', PBool True), (''max'', PInt 2)]
   \<and> calculate_stats (PDict [(''flag'', PBool True)]) =
       PDict [(''count'', PInt 1), (''sum'', PInt 1), (''avg'', PFloat 1),
              (''min'', PBool True), (''max'', PBool True)]"
  by (simp add: calculate_stats_def py_sum_def py_add_def py_min_def py_max_def)




section \<open>Properties of the YAML parser\<close>























text \<open>A block with items, an entry, a comment and deeper lines.\<close>

lemma mixed_block_example:
  "parse_lines [''- a'', ''k: v'', ''- b: 1.5'', '' # c'', ''  deep'', ''x''] 0
     = Inr (PList [PStr ''a'', PDict [(''b'', PFloat (3 / 2))]], 6)"
  by code_simp

end
